theory Spec2Isabelle
  imports Complex_Main
begin

section \<open>The reference query route\<close>

subsection \<open>Requests, responses and the values that travel between them\<close>

text \<open>
  A parsed query-string entry of a Next.js request is a string, or an array of strings
  when the parameter is given more than once; a parameter that is absent reads as
  \<open>undefined\<close>, which is \<open>None\<close> in the map \<open>query\<close> below.
\<close>

datatype qval = QStr string | QArr "string list"

text \<open>
  \<open>method\<close> is optional in the request type, so it is a \<open>string option\<close>.
\<close>

record request =
  "method" :: "string option"
  query :: "string \<rightharpoonup> qval"
  cookies :: "string \<rightharpoonup> string"

record token =
  sub :: string

text \<open>
  The values that \<open>res.json\<close> is given and that \<open>fetchReferences\<close> resolves with: JSON
  trees, and \<open>BigInt\<close> leaves, which \<open>JSON.stringify\<close> rejects with a \<open>TypeError\<close>.
\<close>

datatype json =
    JNull
  | JBool bool
  | JNum real
  | JBigInt int
  | JStr string
  | JArr "json list"
  | JObj "(string \<times> json) list"

text \<open>\<open>JSON.stringify\<close> returns on a value, rather than throwing, when no \<open>BigInt\<close> is in it.\<close>

fun serialisable :: "json \<Rightarrow> bool" where
  "serialisable (JBigInt n) = False"
| "serialisable (JArr xs) = list_all serialisable xs"
| "serialisable (JObj kvs) = list_all (\<lambda>kv. serialisable (snd kv)) kvs"
| "serialisable v = True"

datatype body = EndText string | Json json

text \<open>
  The response object: Node's default status code is 200, \<open>headers\<close> are those set
  through \<open>setHeader\<close>, \<open>sent\<close> is \<open>None\<close> until \<open>end\<close> or \<open>json\<close> finishes the
  response.
\<close>

record response =
  statusCode :: nat
  headers :: "string \<rightharpoonup> string list"
  sent :: "body option"

definition res_setHeader :: "string \<Rightarrow> string list \<Rightarrow> response \<Rightarrow> response" where
  "res_setHeader name vals r = r\<lparr>headers := (headers r)(name \<mapsto> vals)\<rparr>"

definition res_status :: "nat \<Rightarrow> response \<Rightarrow> response" where
  "res_status code r = r\<lparr>statusCode := code\<rparr>"

definition res_end :: "string \<Rightarrow> response \<Rightarrow> response" where
  "res_end text r = r\<lparr>sent := Some (EndText text)\<rparr>"

text \<open>
  \<open>res.json\<close> serialises its argument before it sends: \<open>None\<close> is the \<open>TypeError\<close> thrown
  by \<open>JSON.stringify\<close>, with nothing sent.
\<close>

definition res_json :: "json \<Rightarrow> response \<Rightarrow> response option" where
  "res_json v r = (if serialisable v then Some (r\<lparr>sent := Some (Json v)\<rparr>) else None)"

subsection \<open>Collaborators and the calls made to them\<close>

text \<open>
  The handler imports four collaborators. \<open>getLanguageFromRequest\<close> reads the request;
  the other three may throw (a rejected promise is a throw at the \<open>await\<close>), which is
  \<open>Inl\<close> of the thrown value. \<open>'e\<close> is the type of thrown values, \<open>'u\<close> of backend
  users, \<open>'c\<close> of backend clients.
\<close>

record ('e, 'u, 'c) collaborators =
  getLanguageFromRequest :: "request \<Rightarrow> string"
  getBackendUserCore :: "string \<Rightarrow> 'e + 'u"
  createApiClientFromUser :: "'u \<Rightarrow> 'e + 'c"
  fetchReferences :: "'c \<Rightarrow> string \<Rightarrow> string \<Rightarrow> 'e + json"

datatype logged = LoggedQuery "qval option" | LoggedJson json

datatype ('u, 'c) event =
    ConsoleLog string logged
  | GetBackendUserCore string
  | CreateApiClientFromUser 'u
  | FetchReferences 'c string string

record ('u, 'c) state =
  res :: response
  trace :: "('u, 'c) event list"

definition initial :: "('u, 'c) state" where
  "initial = \<lparr>res = \<lparr>statusCode = 200, headers = Map.empty, sent = None\<rparr>, trace = []\<rparr>"

definition on_res :: "(response \<Rightarrow> response) \<Rightarrow> ('u, 'c) state \<Rightarrow> ('u, 'c) state" where
  "on_res f s = s\<lparr>res := f (res s)\<rparr>"

definition try_on_res :: "(response \<Rightarrow> response option) \<Rightarrow> ('u, 'c) state \<Rightarrow> ('u, 'c) state option" where
  "try_on_res f s = (case f (res s) of None \<Rightarrow> None | Some r \<Rightarrow> Some (s\<lparr>res := r\<rparr>))"

definition record_event :: "('u, 'c) event \<Rightarrow> ('u, 'c) state \<Rightarrow> ('u, 'c) state" where
  "record_event ev s = s\<lparr>trace := trace s @ [ev]\<rparr>"

text \<open>
  How the handler completes: it returns, or a value thrown by a collaborator leaves it,
  or the \<open>TypeError\<close> of a send does.
\<close>

datatype 'e completion = Returned | Threw 'e | ThrewTypeError

subsection \<open>JavaScript coercions used by the handler\<close>

text \<open>A template literal renders \<open>undefined\<close> as the text \<open>undefined\<close>.\<close>

fun template_method :: "string option \<Rightarrow> string" where
  "template_method None = ''undefined''"
| "template_method (Some m) = m"

text \<open>\<open>!query\<close>: \<open>undefined\<close> and the empty string are falsy, every array is truthy.\<close>

fun falsy_query :: "qval option \<Rightarrow> bool" where
  "falsy_query None = True"
| "falsy_query (Some (QStr s)) = (s = [])"
| "falsy_query (Some (QArr xs)) = False"

fun typeof_query :: "qval option \<Rightarrow> string" where
  "typeof_query None = ''undefined''"
| "typeof_query (Some (QStr s)) = ''string''"
| "typeof_query (Some (QArr xs)) = ''object''"

subsection \<open>The handler\<close>

text \<open>
  \<open>handler\<close> is the function that the route passes to \<open>withoutRole("banned", ...)\<close>: it
  runs on the request, the response and the token once that gate has let the caller
  through. It returns how it completed together with the response and the calls made.
  The last branch of the \<open>case\<close> on the query is the one the type narrowing of the
  source excludes (see \<open>narrowed_query\<close> below).

  The \<open>try\<close> encloses the call of \<open>fetchReferences\<close>, the \<open>console.log\<close> of its result
  and the send of the result with status 200. The \<open>catch\<close> is entered from a throw of
  the call and from a throw of that send; \<open>catch_block\<close> is its body, which ignores
  what was thrown.
\<close>

definition catch_block :: "('u, 'c) state \<Rightarrow> 'e completion \<times> ('u, 'c) state" where
  "catch_block s =
     (let s1 = on_res (res_status 500) s in
        (case try_on_res (res_json (JObj [(''error'', JStr ''Failed to fetch references'')])) s1 of
           Some s2 \<Rightarrow> (Returned, s2)
         | None \<Rightarrow> (ThrewTypeError, s1)))"

definition handler ::
  "('e, 'u, 'c) collaborators \<Rightarrow> request \<Rightarrow> token \<Rightarrow> ('u, 'c) state
     \<Rightarrow> 'e completion \<times> ('u, 'c) state" where
  "handler env req tok s0 =
    (if method req \<noteq> Some ''GET'' then
       let s1 = on_res (res_setHeader ''Allow'' [''GET'']) s0;
           s2 = on_res (res_status 405) s1;
           s3 = on_res (res_end (''Method '' @ template_method (method req) @ '' Not Allowed'')) s2
       in (Returned, s3)
     else
       let q = query req ''query'';
           s1 = record_event (ConsoleLog ''nextJS references: query'' (LoggedQuery q)) s0
       in
         if falsy_query q \<or> typeof_query q \<noteq> ''string'' then
           let s2 = on_res (res_status 400) s1 in
             (case try_on_res (res_json (JObj [(''error'', JStr ''Query parameter is required'')])) s2 of
                Some s3 \<Rightarrow> (Returned, s3)
              | None \<Rightarrow> (ThrewTypeError, s2))
         else
           (case q of
              Some (QStr qs) \<Rightarrow>
                let lang = getLanguageFromRequest env req;
                    s2 = record_event (GetBackendUserCore (sub tok)) s1
                in
                  (case getBackendUserCore env (sub tok) of
                     Inl e \<Rightarrow> (Threw e, s2)
                   | Inr user \<Rightarrow>
                       let s3 = record_event (CreateApiClientFromUser user) s2 in
                         (case createApiClientFromUser env user of
                            Inl e \<Rightarrow> (Threw e, s3)
                          | Inr client \<Rightarrow>
                              let s4 = record_event (FetchReferences client qs lang) s3 in
                                (case fetchReferences env client qs lang of
                                   Inr references \<Rightarrow>
                                     let s5 = record_event
                                                (ConsoleLog ''nextJS references'' (LoggedJson references)) s4;
                                         s6 = on_res (res_status 200) s5
                                     in
                                       (case try_on_res (res_json references) s6 of
                                          Some s7 \<Rightarrow> (Returned, s7)
                                        | None \<Rightarrow> catch_block s6)
                                 | Inl err \<Rightarrow> catch_block s4)))
            | _ \<Rightarrow> (Returned, s1)))"

text \<open>The calls that reach the backend: everything but \<open>console.log\<close>.\<close>

fun is_backend_call :: "('u, 'c) event \<Rightarrow> bool" where
  "is_backend_call (ConsoleLog label v) = False"
| "is_backend_call (GetBackendUserCore s) = True"
| "is_backend_call (CreateApiClientFromUser u) = True"
| "is_backend_call (FetchReferences c q l) = True"

fun is_fetchReferences :: "('u, 'c) event \<Rightarrow> bool" where
  "is_fetchReferences (FetchReferences c q l) = True"
| "is_fetchReferences ev = False"

definition backend_calls :: "('u, 'c) state \<Rightarrow> ('u, 'c) event list" where
  "backend_calls s = filter is_backend_call (trace s)"

section \<open>The client hook\<close>






record ('d, 'x, 'm) references_hook =
  references :: 'd
  isLoading :: bool
  isError :: 'x
  refreshReferences :: 'm



section \<open>The button\<close>

text \<open>
  A prop value is \<open>undefined\<close>, a string, or some other value (a handler, a node).
  A props object maps names to values; a name it does not hold reads as \<open>undefined\<close>.
\<close>

datatype 'v propval = PUndefined | PStr string | PVal 'v

record 'v element =
  tag :: string
  props :: "string \<rightharpoonup> 'v propval"

definition read_prop :: "(string \<rightharpoonup> 'v propval) \<Rightarrow> string \<Rightarrow> 'v propval" where
  "read_prop p k = (case p k of None \<Rightarrow> PUndefined | Some v \<Rightarrow> v)"

text \<open>
  \<open>{ children, onClick, ...props }\<close> takes the two names out of the object and leaves
  the rest; the element's props are the object written by the JSX, later entries
  overwriting earlier ones, with the children last.
\<close>

definition ReferencesButton :: "(string \<rightharpoonup> 'v propval) \<Rightarrow> 'v element" where
  "ReferencesButton p =
     (let children = read_prop p ''children'';
          onClick = read_prop p ''onClick'';
          rest = (\<lambda>k. if k = ''children'' \<or> k = ''onClick'' then None else p k)
      in \<lparr>tag = ''Button'',
          props = ([''size'' \<mapsto> PStr ''lg'', ''variant'' \<mapsto> PStr ''solid'', ''onClick'' \<mapsto> onClick]
                     ++ rest)(''children'' \<mapsto> children)\<rparr>)"

section \<open>Sample inputs\<close>

definition sample_env :: "(string, string, string) collaborators" where
  "sample_env =
     \<lparr>getLanguageFromRequest = (\<lambda>r. case cookies r ''NEXT_LOCALE'' of None \<Rightarrow> ''en'' | Some l \<Rightarrow> l),
      getBackendUserCore = (\<lambda>s. if s = ''alice'' then Inr ''user-alice'' else Inl ''User not found''),
      createApiClientFromUser = (\<lambda>u. if u = [] then Inl ''no user'' else Inr (''client-'' @ u)),
      fetchReferences = (\<lambda>c q l. if q = ''boom'' then Inl ''backend down'' else Inr (JArr [JStr q, JStr l]))\<rparr>"

text \<open>A backend whose answer holds a \<open>BigInt\<close>.\<close>

definition bigint_env :: "(string, string, string) collaborators" where
  "bigint_env = sample_env\<lparr>fetchReferences := (\<lambda>c q l. Inr (JObj [(''count'', JBigInt 3)]))\<rparr>"

definition no_client_env :: "(string, string, string) collaborators" where
  "no_client_env = sample_env\<lparr>createApiClientFromUser := (\<lambda>u. Inl ''no backend url'')\<rparr>"

definition sample_request :: "string \<Rightarrow> qval option \<Rightarrow> request" where
  "sample_request m q = \<lparr>method = Some m, query = (\<lambda>k. if k = ''query'' then q else None),
     cookies = Map.empty\<rparr>"

definition alice :: token where
  "alice = \<lparr>sub = ''alice''\<rparr>"

definition mallory :: token where
  "mallory = \<lparr>sub = ''mallory''\<rparr>"


definition sample_props :: "string \<rightharpoonup> nat propval" where
  "sample_props =
     [''onClick'' \<mapsto> PVal 1, ''children'' \<mapsto> PVal 2, ''size'' \<mapsto> PStr ''sm'',
      ''colorScheme'' \<mapsto> PStr ''blue'']"

section \<open>Properties of the route\<close>

lemma narrowed_query:
  "(\<not> (falsy_query q \<or> typeof_query q \<noteq> ''string'')) = (\<exists>qs. qs \<noteq> [] \<and> q = Some (QStr qs))"
  by (cases q rule: falsy_query.cases) auto

lemmas res_ops = on_res_def try_on_res_def record_event_def res_setHeader_def res_status_def
  res_end_def res_json_def catch_block_def initial_def

lemmas samples = sample_env_def no_client_env_def bigint_env_def sample_request_def alice_def
  mallory_def



text \<open>
  C2. A \<open>GET\<close> request whose \<open>query\<close> parameter is missing, is an array (the parameter
  was given more than once) or is the empty string makes the handler return normally
  with status 400 and the body \<open>{error: "Query parameter is required"}\<close>; the only
  thing done before is the \<open>console.log\<close> of the parameter, so no other status is
  possible for such a request.
\<close>

theorem handler_bad_query:
  assumes "method req = Some ''GET''"
    and "query req ''query'' = None \<or> (\<exists>xs. query req ''query'' = Some (QArr xs))
           \<or> query req ''query'' = Some (QStr [])"
  shows "handler env req tok initial =
           (Returned,
            \<lparr>res = \<lparr>statusCode = 400, headers = Map.empty,
                    sent = Some (Json (JObj [(''error'', JStr ''Query parameter is required'')]))\<rparr>,
             trace = [ConsoleLog ''nextJS references: query'' (LoggedQuery (query req ''query''))]\<rparr>)"
proof -
  from assms(2)
  have bad: "falsy_query (query req ''query'') \<or> typeof_query (query req ''query'') \<noteq> ''string''"
    by auto
  with assms(1) show ?thesis
    by (simp add: handler_def Let_def res_ops)
qed

theorem handler_bad_query_witness:
  "handler sample_env (sample_request ''GET'' None) alice initial =
     (Returned,
      \<lparr>res = \<lparr>statusCode = 400, headers = Map.empty,
              sent = Some (Json (JObj [(''error'', JStr ''Query parameter is required'')]))\<rparr>,
       trace = [ConsoleLog ''nextJS references: query'' (LoggedQuery None)]\<rparr>) \<and>
   handler sample_env (sample_request ''GET'' (Some (QArr [''a'', ''b'']))) alice initial =
     (Returned,
      \<lparr>res = \<lparr>statusCode = 400, headers = Map.empty,
              sent = Some (Json (JObj [(''error'', JStr ''Query parameter is required'')]))\<rparr>,
       trace = [ConsoleLog ''nextJS references: query''
                  (LoggedQuery (Some (QArr [''a'', ''b''])))]\<rparr>) \<and>
   handler sample_env (sample_request ''GET'' (Some (QStr []))) alice initial =
     (Returned,
      \<lparr>res = \<lparr>statusCode = 400, headers = Map.empty,
              sent = Some (Json (JObj [(''error'', JStr ''Query parameter is required'')]))\<rparr>,
       trace = [ConsoleLog ''nextJS references: query'' (LoggedQuery (Some (QStr [])))]\<rparr>)"
proof -
  have a: "handler sample_env (sample_request ''GET'' None) alice initial =
     (Returned,
      \<lparr>res = \<lparr>statusCode = 400, headers = Map.empty,
              sent = Some (Json (JObj [(''error'', JStr ''Query parameter is required'')]))\<rparr>,
       trace = [ConsoleLog ''nextJS references: query'' (LoggedQuery None)]\<rparr>)"
    using handler_bad_query [of "sample_request ''GET'' None" sample_env alice]
    by (simp add: sample_request_def)
  have b: "handler sample_env (sample_request ''GET'' (Some (QArr [''a'', ''b'']))) alice initial =
     (Returned,
      \<lparr>res = \<lparr>statusCode = 400, headers = Map.empty,
              sent = Some (Json (JObj [(''error'', JStr ''Query parameter is required'')]))\<rparr>,
       trace = [ConsoleLog ''nextJS references: query''
                  (LoggedQuery (Some (QArr [''a'', ''b''])))]\<rparr>)"
    using handler_bad_query [of "sample_request ''GET'' (Some (QArr [''a'', ''b'']))" sample_env alice]
    by (simp add: sample_request_def)
  have c: "handler sample_env (sample_request ''GET'' (Some (QStr []))) alice initial =
     (Returned,
      \<lparr>res = \<lparr>statusCode = 400, headers = Map.empty,
              sent = Some (Json (JObj [(''error'', JStr ''Query parameter is required'')]))\<rparr>,
       trace = [ConsoleLog ''nextJS references: query'' (LoggedQuery (Some (QStr [])))]\<rparr>)"
    using handler_bad_query [of "sample_request ''GET'' (Some (QStr []))" sample_env alice]
    by (simp add: sample_request_def)
  from a b c show ?thesis by (intro conjI)
qed

text \<open>
  What the handler does on a \<open>GET\<close> request with a non-empty string \<open>query\<close>, once the
  user is resolved and the client is built: one case for each outcome of
  \<open>fetchReferences\<close>, and for a resolved call one for each outcome of the send.
\<close>

lemma handler_valid:
  assumes "method req = Some ''GET''" and "query req ''query'' = Some (QStr qs)" and "qs \<noteq> []"
    and "getBackendUserCore env (sub tok) = Inr user"
    and "createApiClientFromUser env user = Inr client"
  shows "handler env req tok initial =
     (case fetchReferences env client qs (getLanguageFromRequest env req) of
        Inr refs \<Rightarrow>
          (Returned,
           \<lparr>res = (if serialisable refs
                   then \<lparr>statusCode = 200, headers = Map.empty, sent = Some (Json refs)\<rparr>
                   else \<lparr>statusCode = 500, headers = Map.empty,
                         sent = Some (Json (JObj [(''error'', JStr ''Failed to fetch references'')]))\<rparr>),
            trace = [ConsoleLog ''nextJS references: query'' (LoggedQuery (Some (QStr qs))),
                     GetBackendUserCore (sub tok), CreateApiClientFromUser user,
                     FetchReferences client qs (getLanguageFromRequest env req),
                     ConsoleLog ''nextJS references'' (LoggedJson refs)]\<rparr>)
      | Inl err \<Rightarrow>
          (Returned,
           \<lparr>res = \<lparr>statusCode = 500, headers = Map.empty,
                   sent = Some (Json (JObj [(''error'', JStr ''Failed to fetch references'')]))\<rparr>,
            trace = [ConsoleLog ''nextJS references: query'' (LoggedQuery (Some (QStr qs))),
                     GetBackendUserCore (sub tok), CreateApiClientFromUser user,
                     FetchReferences client qs (getLanguageFromRequest env req)]\<rparr>))"
  using assms by (simp add: handler_def Let_def res_ops split: sum.splits)

text \<open>
  C3, as the code has it. On a \<open>GET\<close> request with a non-empty string \<open>query\<close>, when the
  call of \<open>fetchReferences\<close> (made on the client built for the resolved user, with the
  query and the request's language) resolves with a \<open>D\<close> that \<open>res.json\<close> can serialise,
  the handler returns normally with status 200 and the JSON body \<open>D\<close> itself.
\<close>

theorem handler_forwards_result:
  assumes "method req = Some ''GET''" and "query req ''query'' = Some (QStr qs)" and "qs \<noteq> []"
    and "getBackendUserCore env (sub tok) = Inr user"
    and "createApiClientFromUser env user = Inr client"
    and "fetchReferences env client qs (getLanguageFromRequest env req) = Inr D"
    and "serialisable D"
  shows "fst (handler env req tok initial) = Returned \<and>
         statusCode (res (snd (handler env req tok initial))) = 200 \<and>
         sent (res (snd (handler env req tok initial))) = Some (Json D)"
  using handler_valid [OF assms(1-5)] assms(6,7) by simp

theorem handler_forwards_result_witness:
  "method (sample_request ''GET'' (Some (QStr ''cats''))) = Some ''GET'' \<and>
   query (sample_request ''GET'' (Some (QStr ''cats''))) ''query'' = Some (QStr ''cats'') \<and>
   getBackendUserCore sample_env (sub alice) = Inr ''user-alice'' \<and>
   createApiClientFromUser sample_env ''user-alice'' = Inr ''client-user-alice'' \<and>
   fetchReferences sample_env ''client-user-alice'' ''cats''
     (getLanguageFromRequest sample_env (sample_request ''GET'' (Some (QStr ''cats''))))
       = Inr (JArr [JStr ''cats'', JStr ''en'']) \<and>
   serialisable (JArr [JStr ''cats'', JStr ''en'']) \<and>
   fst (handler sample_env (sample_request ''GET'' (Some (QStr ''cats''))) alice initial) = Returned \<and>
   statusCode (res (snd (handler sample_env (sample_request ''GET'' (Some (QStr ''cats''))) alice initial)))
     = 200 \<and>
   sent (res (snd (handler sample_env (sample_request ''GET'' (Some (QStr ''cats''))) alice initial)))
     = Some (Json (JArr [JStr ''cats'', JStr ''en'']))"
  using handler_forwards_result [of "sample_request ''GET'' (Some (QStr ''cats''))" "''cats''"
      sample_env alice "''user-alice''" "''client-user-alice''" "JArr [JStr ''cats'', JStr ''en'']"]
  by (simp add: samples)

text \<open>
  C3, as the claim has it, fails: the request below is a \<open>GET\<close> with the query \<open>cats\<close>,
  the call of \<open>fetchReferences\<close> resolves with an object that holds a \<open>BigInt\<close>, the send
  of it throws inside the \<open>try\<close>, and the \<open>catch\<close> answers 500 with the fixed error body.
\<close>

theorem handler_forwards_result_counterexample:
  "method (sample_request ''GET'' (Some (QStr ''cats''))) = Some ''GET'' \<and>
   query (sample_request ''GET'' (Some (QStr ''cats''))) ''query'' = Some (QStr ''cats'') \<and>
   getBackendUserCore bigint_env (sub alice) = Inr ''user-alice'' \<and>
   createApiClientFromUser bigint_env ''user-alice'' = Inr ''client-user-alice'' \<and>
   fetchReferences bigint_env ''client-user-alice'' ''cats''
     (getLanguageFromRequest bigint_env (sample_request ''GET'' (Some (QStr ''cats''))))
       = Inr (JObj [(''count'', JBigInt 3)]) \<and>
   statusCode (res (snd (handler bigint_env (sample_request ''GET'' (Some (QStr ''cats''))) alice initial)))
     = 500 \<and>
   sent (res (snd (handler bigint_env (sample_request ''GET'' (Some (QStr ''cats''))) alice initial)))
     = Some (Json (JObj [(''error'', JStr ''Failed to fetch references'')])) \<and>
   sent (res (snd (handler bigint_env (sample_request ''GET'' (Some (QStr ''cats''))) alice initial)))
     \<noteq> Some (Json (JObj [(''count'', JBigInt 3)]))"
  by (simp add: handler_def Let_def res_ops samples)

text \<open>
  C4. On a \<open>GET\<close> request with a non-empty string \<open>query\<close>, when the call of
  \<open>fetchReferences\<close> throws \<open>err\<close>, the handler returns normally with status 500 and
  the body \<open>{error: "Failed to fetch references"}\<close>: the same response for every
  \<open>err\<close>, which occurs nowhere in it.
\<close>

theorem handler_hides_failure:
  assumes "method req = Some ''GET''" and "query req ''query'' = Some (QStr qs)" and "qs \<noteq> []"
    and "getBackendUserCore env (sub tok) = Inr user"
    and "createApiClientFromUser env user = Inr client"
    and "fetchReferences env client qs (getLanguageFromRequest env req) = Inl err"
  shows "fst (handler env req tok initial) = Returned \<and>
         res (snd (handler env req tok initial))
           = \<lparr>statusCode = 500, headers = Map.empty,
              sent = Some (Json (JObj [(''error'', JStr ''Failed to fetch references'')]))\<rparr>"
  using handler_valid [OF assms(1-5)] assms(6) by simp

theorem handler_hides_failure_witness:
  "method (sample_request ''GET'' (Some (QStr ''boom''))) = Some ''GET'' \<and>
   query (sample_request ''GET'' (Some (QStr ''boom''))) ''query'' = Some (QStr ''boom'') \<and>
   getBackendUserCore sample_env (sub alice) = Inr ''user-alice'' \<and>
   createApiClientFromUser sample_env ''user-alice'' = Inr ''client-user-alice'' \<and>
   fetchReferences sample_env ''client-user-alice'' ''boom''
     (getLanguageFromRequest sample_env (sample_request ''GET'' (Some (QStr ''boom''))))
       = Inl ''backend down'' \<and>
   fst (handler sample_env (sample_request ''GET'' (Some (QStr ''boom''))) alice initial) = Returned \<and>
   res (snd (handler sample_env (sample_request ''GET'' (Some (QStr ''boom''))) alice initial))
     = \<lparr>statusCode = 500, headers = Map.empty,
        sent = Some (Json (JObj [(''error'', JStr ''Failed to fetch references'')]))\<rparr>"
  using handler_hides_failure [of "sample_request ''GET'' (Some (QStr ''boom''))" "''boom''"
      sample_env alice "''user-alice''" "''client-user-alice''" "''backend down''"]
  by (simp add: samples)

text \<open>
  C5, as the code has it. On a \<open>GET\<close> request with a non-empty string \<open>query\<close>, when
  \<open>getBackendUserCore\<close> returns a user for the token's subject and
  \<open>createApiClientFromUser\<close> returns a client for that user, the calls that reach the
  backend are, in order: the user lookup for the token's subject, the construction of
  the client from that user, and one call of \<open>fetchReferences\<close> on that client with the
  request's query string and the language of the request. This holds whether that call
  resolves or throws.
\<close>

theorem handler_fetches_once:
  assumes "method req = Some ''GET''" and "query req ''query'' = Some (QStr qs)" and "qs \<noteq> []"
    and "getBackendUserCore env (sub tok) = Inr user"
    and "createApiClientFromUser env user = Inr client"
  shows "backend_calls (snd (handler env req tok initial))
           = [GetBackendUserCore (sub tok), CreateApiClientFromUser user,
              FetchReferences client qs (getLanguageFromRequest env req)] \<and>
         filter is_fetchReferences (trace (snd (handler env req tok initial)))
           = [FetchReferences client qs (getLanguageFromRequest env req)]"
proof (cases "fetchReferences env client qs (getLanguageFromRequest env req)")
  case (Inl err)
  with handler_valid [OF assms] show ?thesis
    by (simp add: backend_calls_def)
next
  case (Inr refs)
  with handler_valid [OF assms] show ?thesis
    by (simp add: backend_calls_def)
qed

theorem handler_fetches_once_witness:
  "method (sample_request ''GET'' (Some (QStr ''boom''))) = Some ''GET'' \<and>
   query (sample_request ''GET'' (Some (QStr ''boom''))) ''query'' = Some (QStr ''boom'') \<and>
   getBackendUserCore sample_env (sub alice) = Inr ''user-alice'' \<and>
   createApiClientFromUser sample_env ''user-alice'' = Inr ''client-user-alice'' \<and>
   backend_calls (snd (handler sample_env (sample_request ''GET'' (Some (QStr ''boom''))) alice initial))
     = [GetBackendUserCore ''alice'', CreateApiClientFromUser ''user-alice'',
        FetchReferences ''client-user-alice'' ''boom'' ''en''] \<and>
   filter is_fetchReferences
       (trace (snd (handler sample_env (sample_request ''GET'' (Some (QStr ''boom''))) alice initial)))
     = [FetchReferences ''client-user-alice'' ''boom'' ''en'']"
  using handler_fetches_once [of "sample_request ''GET'' (Some (QStr ''boom''))" "''boom''"
      sample_env alice "''user-alice''" "''client-user-alice''"]
  by (simp add: samples)

text \<open>
  C5, as the claim has it, fails: the request below is a \<open>GET\<close> with the query
  \<open>cats\<close>, the user lookup throws for the subject \<open>mallory\<close>, and the handler ends
  with that exception without a single call of \<open>fetchReferences\<close>.
\<close>

theorem handler_fetches_once_counterexample:
  "method (sample_request ''GET'' (Some (QStr ''cats''))) = Some ''GET'' \<and>
   query (sample_request ''GET'' (Some (QStr ''cats''))) ''query'' = Some (QStr ''cats'') \<and>
   fst (handler sample_env (sample_request ''GET'' (Some (QStr ''cats''))) mallory initial)
     = Threw ''User not found'' \<and>
   length (filter is_fetchReferences
       (trace (snd (handler sample_env (sample_request ''GET'' (Some (QStr ''cats''))) mallory initial))))
     \<noteq> 1"
  by (simp add: handler_def Let_def res_ops samples)

text \<open>
  C8. On a \<open>GET\<close> request with a non-empty string \<open>query\<close>, when \<open>getBackendUserCore\<close>
  throws \<open>e\<close>, or it returns a user and \<open>createApiClientFromUser\<close> throws \<open>e\<close>, the
  handler ends with \<open>e\<close> thrown out of it, and the response is as it was at the start:
  status code untouched, no header, nothing sent. (C4 is the other half: a throw of
  \<open>fetchReferences\<close> is caught.)
\<close>

theorem handler_uncaught:
  assumes "method req = Some ''GET''" and "query req ''query'' = Some (QStr qs)" and "qs \<noteq> []"
    and "getBackendUserCore env (sub tok) = Inl e \<or>
         (\<exists>user. getBackendUserCore env (sub tok) = Inr user \<and> createApiClientFromUser env user = Inl e)"
  shows "fst (handler env req tok initial) = Threw e \<and>
         res (snd (handler env req tok initial)) = res initial \<and>
         sent (res (snd (handler env req tok initial))) = None"
  using assms by (auto simp add: handler_def Let_def res_ops)

theorem handler_uncaught_witness:
  "getBackendUserCore sample_env (sub mallory) = Inl ''User not found'' \<and>
   fst (handler sample_env (sample_request ''GET'' (Some (QStr ''cats''))) mallory initial)
     = Threw ''User not found'' \<and>
   sent (res (snd (handler sample_env (sample_request ''GET'' (Some (QStr ''cats''))) mallory initial)))
     = None \<and>
   getBackendUserCore no_client_env (sub alice) = Inr ''user-alice'' \<and>
   createApiClientFromUser no_client_env ''user-alice'' = Inl ''no backend url'' \<and>
   fst (handler no_client_env (sample_request ''GET'' (Some (QStr ''cats''))) alice initial)
     = Threw ''no backend url'' \<and>
   sent (res (snd (handler no_client_env (sample_request ''GET'' (Some (QStr ''cats''))) alice initial)))
     = None"
proof -
  have m: "method (sample_request ''GET'' (Some (QStr ''cats''))) = Some ''GET''"
    and q: "query (sample_request ''GET'' (Some (QStr ''cats''))) ''query'' = Some (QStr ''cats'')"
    and n: "''cats'' \<noteq> []"
    by (simp_all add: sample_request_def)
  have u1: "getBackendUserCore sample_env (sub mallory) = Inl ''User not found''"
    by (simp add: samples)
  have u2: "getBackendUserCore no_client_env (sub alice) = Inr ''user-alice''"
    by (simp add: samples)
  have c2: "createApiClientFromUser no_client_env ''user-alice'' = Inl ''no backend url''"
    by (simp add: samples)
  from u1 have d1: "getBackendUserCore sample_env (sub mallory) = Inl ''User not found'' \<or>
      (\<exists>user. getBackendUserCore sample_env (sub mallory) = Inr user \<and>
         createApiClientFromUser sample_env user = Inl ''User not found'')"
    by (rule disjI1)
  from u2 c2 have d2: "getBackendUserCore no_client_env (sub alice) = Inl ''no backend url'' \<or>
      (\<exists>user. getBackendUserCore no_client_env (sub alice) = Inr user \<and>
         createApiClientFromUser no_client_env user = Inl ''no backend url'')"
    by blast
  from handler_uncaught [OF m q n d1] handler_uncaught [OF m q n d2] u1 u2 c2
  show ?thesis by blast
qed

text \<open>
  C9. Whenever the handler leaves the status code at 405 or at 400, the calls it made
  hold no backend call: no user lookup, no client construction, no \<open>fetchReferences\<close>.
\<close>

theorem client_error_has_no_backend_call:
  assumes "statusCode (res (snd (handler env req tok initial))) = 405 \<or>
           statusCode (res (snd (handler env req tok initial))) = 400"
  shows "backend_calls (snd (handler env req tok initial)) = []"
proof (cases "method req \<noteq> Some ''GET''")
  case True
  then show ?thesis by (simp add: handler_def Let_def res_ops backend_calls_def)
next
  case get: False
  show ?thesis
  proof (cases "falsy_query (query req ''query'') \<or> typeof_query (query req ''query'') \<noteq> ''string''")
    case True
    with get show ?thesis by (simp add: handler_def Let_def res_ops backend_calls_def)
  next
    case False
    then obtain qs where q: "query req ''query'' = Some (QStr qs)" "qs \<noteq> []"
      using narrowed_query [of "query req ''query''"] by auto
    from get q
    have "statusCode (res (snd (handler env req tok initial))) = 200 \<or>
          statusCode (res (snd (handler env req tok initial))) = 500"
      by (simp add: handler_def Let_def res_ops split: sum.splits)
    with assms show ?thesis by auto
  qed
qed

theorem client_error_has_no_backend_call_witness:
  "statusCode (res (snd (handler sample_env (sample_request ''DELETE'' (Some (QStr ''cats''))) alice initial)))
     = 405 \<and>
   backend_calls (snd (handler sample_env (sample_request ''DELETE'' (Some (QStr ''cats''))) alice initial))
     = [] \<and>
   statusCode (res (snd (handler sample_env (sample_request ''GET'' None) alice initial))) = 400 \<and>
   backend_calls (snd (handler sample_env (sample_request ''GET'' None) alice initial)) = []"
proof -
  have a: "statusCode (res (snd (handler sample_env (sample_request ''DELETE'' (Some (QStr ''cats''))) alice initial)))
     = 405"
    by (simp add: handler_def Let_def res_ops samples)
  have b: "statusCode (res (snd (handler sample_env (sample_request ''GET'' None) alice initial))) = 400"
    by (simp add: handler_def Let_def res_ops samples)
  from a b client_error_has_no_backend_call [of sample_env "sample_request ''DELETE'' (Some (QStr ''cats''))" alice]
    client_error_has_no_backend_call [of sample_env "sample_request ''GET'' None" alice]
  show ?thesis by simp
qed

section \<open>Properties of the hook\<close>





section \<open>Properties of the button\<close>

text \<open>
  C10. \<open>ReferencesButton\<close> renders a \<open>Button\<close>. Its \<open>onClick\<close> and its children are the
  caller's. Its \<open>size\<close> and \<open>variant\<close> are the caller's when the caller's props hold
  them, and \<open>lg\<close> and \<open>solid\<close> otherwise. Every other prop is the caller's. The element
  is a function of the props alone: the component keeps no state.
\<close>

theorem ReferencesButton_props:
  "tag (ReferencesButton p) = ''Button'' \<and>
   props (ReferencesButton p) ''onClick'' = Some (read_prop p ''onClick'') \<and>
   props (ReferencesButton p) ''children'' = Some (read_prop p ''children'') \<and>
   props (ReferencesButton p) ''size'' = Some (case p ''size'' of None \<Rightarrow> PStr ''lg'' | Some v \<Rightarrow> v) \<and>
   props (ReferencesButton p) ''variant''
     = Some (case p ''variant'' of None \<Rightarrow> PStr ''solid'' | Some v \<Rightarrow> v) \<and>
   (\<forall>k. k \<notin> {''onClick'', ''children'', ''size'', ''variant''} \<longrightarrow> props (ReferencesButton p) k = p k)"
proof (intro conjI allI impI)
  show "tag (ReferencesButton p) = ''Button''"
    by (simp add: ReferencesButton_def Let_def)
  show "props (ReferencesButton p) ''onClick'' = Some (read_prop p ''onClick'')"
    by (simp add: ReferencesButton_def Let_def map_add_def)
  show "props (ReferencesButton p) ''children'' = Some (read_prop p ''children'')"
    by (simp add: ReferencesButton_def Let_def)
  show "props (ReferencesButton p) ''size'' = Some (case p ''size'' of None \<Rightarrow> PStr ''lg'' | Some v \<Rightarrow> v)"
    by (cases "p ''size''") (simp_all add: ReferencesButton_def Let_def map_add_def)
  show "props (ReferencesButton p) ''variant''
     = Some (case p ''variant'' of None \<Rightarrow> PStr ''solid'' | Some v \<Rightarrow> v)"
    by (cases "p ''variant''") (simp_all add: ReferencesButton_def Let_def map_add_def)
next
  fix k :: string
  assume k: "k \<notin> {''onClick'', ''children'', ''size'', ''variant''}"
  then have "k \<noteq> ''onClick''" "k \<noteq> ''children''" "k \<noteq> ''size''" "k \<noteq> ''variant''"
    by blast+
  then show "props (ReferencesButton p) k = p k"
    by (cases "p k") (simp_all add: ReferencesButton_def Let_def map_add_def)
qed

theorem ReferencesButton_props_witness:
  "tag (ReferencesButton sample_props) = ''Button'' \<and>
   props (ReferencesButton sample_props) ''onClick'' = Some (PVal 1) \<and>
   props (ReferencesButton sample_props) ''children'' = Some (PVal 2) \<and>
   props (ReferencesButton sample_props) ''size'' = Some (PStr ''sm'') \<and>
   props (ReferencesButton sample_props) ''variant'' = Some (PStr ''solid'') \<and>
   ''colorScheme'' \<notin> {''onClick'', ''children'', ''size'', ''variant''} \<and>
   props (ReferencesButton sample_props) ''colorScheme'' = Some (PStr ''blue'')"
proof -
  note T = ReferencesButton_props [of sample_props]
  have k: "''colorScheme'' \<notin> {''onClick'', ''children'', ''size'', ''variant''}"
    by simp
  have s: "sample_props ''onClick'' = Some (PVal 1)" "sample_props ''children'' = Some (PVal 2)"
    "sample_props ''size'' = Some (PStr ''sm'')" "sample_props ''variant'' = None"
    "sample_props ''colorScheme'' = Some (PStr ''blue'')"
    by (simp_all add: sample_props_def)
  have t1: "tag (ReferencesButton sample_props) = ''Button''"
    using T by (rule conjunct1)
  have t2: "props (ReferencesButton sample_props) ''onClick'' = Some (PVal 1)"
    using T [THEN conjunct2, THEN conjunct1] s by (simp add: read_prop_def)
  have t3: "props (ReferencesButton sample_props) ''children'' = Some (PVal 2)"
    using T [THEN conjunct2, THEN conjunct2, THEN conjunct1] s by (simp add: read_prop_def)
  have t4: "props (ReferencesButton sample_props) ''size'' = Some (PStr ''sm'')"
    using T [THEN conjunct2, THEN conjunct2, THEN conjunct2, THEN conjunct1] s by simp
  have t5: "props (ReferencesButton sample_props) ''variant'' = Some (PStr ''solid'')"
    using T [THEN conjunct2, THEN conjunct2, THEN conjunct2, THEN conjunct2, THEN conjunct1] s
    by simp
  have "props (ReferencesButton sample_props) ''colorScheme'' = sample_props ''colorScheme''"
    using T [THEN conjunct2, THEN conjunct2, THEN conjunct2, THEN conjunct2, THEN conjunct2,
        THEN spec, of "''colorScheme''"] k
    by (rule mp)
  with s have t6: "props (ReferencesButton sample_props) ''colorScheme'' = Some (PStr ''blue'')"
    by simp
  from t1 t2 t3 t4 t5 k t6 show ?thesis by (intro conjI)
qed

end
